theory Spec2Isabelle
  imports Complex_Main "HOL-Library.Log_Nat" "HOL-Library.AList" "HOL-Library.Sublist"
begin

section \<open>Python strings\<close>

text \<open>
  A Python \<open>str\<close> is modelled as a \<open>string\<close> whose characters are the code points
  U+0000 to U+00FF (Latin-1). \<open>py_in s t\<close> is the operator \<open>s in t\<close> on strings
  (contiguous substring), \<open>py_lower\<close> is \<open>str.lower()\<close>.
\<close>

definition lower_char :: "char \<Rightarrow> char" where
  "lower_char c = (let n = (of_char c :: nat) in
     if (65 \<le> n \<and> n \<le> 90) \<or> (192 \<le> n \<and> n \<le> 222 \<and> n \<noteq> 215)
     then char_of (n + 32) else c)"

definition py_lower :: "string \<Rightarrow> string" where
  "py_lower s = map lower_char s"

fun py_in :: "string \<Rightarrow> string \<Rightarrow> bool" where
  "py_in s [] = (s = [])"
| "py_in s (c # cs) = (prefix s (c # cs) \<or> py_in s cs)"

section \<open>SEC company-facts data (app/services/sec\_service.py)\<close>

text \<open>
  The JSON documents of the SEC API are nested dictionaries. A dictionary whose iteration
  order matters is an association list with distinct keys, in insertion order. A key that
  the code reads with \<open>d.get(k)\<close> is an \<open>option\<close> field (\<open>None\<close>: the key is absent
  or holds JSON null, which \<open>get\<close> does not tell apart). The key \<open>fp\<close> is read with
  \<open>value.get('fp', '')\<close>, where absent and null differ, so it has three states.
\<close>

datatype 'a jfield = Absent | Null | Present 'a

text \<open>\<open>d.get(k, default)\<close>: the default replaces an absent key only; a null stays \<open>None\<close>.\<close>

fun get_default :: "'a jfield \<Rightarrow> 'a \<Rightarrow> 'a option" where
  "get_default Absent d = Some d"
| "get_default Null d = None"
| "get_default (Present x) d = Some x"

text \<open>\<open>d.get(k)\<close>\<close>

fun get_field :: "'a jfield \<Rightarrow> 'a option" where
  "get_field Absent = None"
| "get_field Null = None"
| "get_field (Present x) = Some x"

text \<open>One entry of a concept's \<open>units[unit_key]\<close> list.\<close>

record sec_value =
  v_form :: "string option"
  v_end :: "string option"
  v_fy :: "int option"
  v_fp :: "string jfield"
  v_val :: "rat option"
  v_filed :: "string option"
  v_accn :: "string option"

text \<open>
  A concept of the facts document: its \<open>label\<close> and, when the key \<open>units\<close> is present,
  the dictionary from unit key to the list of reported values.
\<close>

record concept_data =
  c_label :: "string jfield"
  c_units :: "(string \<times> sec_value list) list option"

section \<open>Concept classifier: \<open>SECService._categorize_concepts_by_statement\<close>\<close>

datatype statement_type = income_statement | balance_sheet | cash_flow

text \<open>The keys of the dictionaries \<open>categorized\<close> and \<open>statement_keywords\<close>, in insertion order.\<close>

definition statement_types :: "statement_type list" where
  "statement_types = [income_statement, balance_sheet, cash_flow]"

fun statement_keywords :: "statement_type \<Rightarrow> string list" where
  "statement_keywords income_statement =
     [''revenue'', ''sales'', ''income'', ''profit'', ''loss'', ''earnings'', ''expense'', ''cost'',
      ''gross'', ''operating'', ''eps'', ''per share'', ''research'', ''development'']"
| "statement_keywords balance_sheet =
     [''asset'', ''liability'', ''equity'', ''cash'', ''receivable'', ''payable'', ''inventory'',
      ''debt'', ''stock'', ''capital'', ''retained'', ''current'', ''total'', ''shares'',
      ''other comprehensive income'', ''goodwill'', ''intangible'', ''available for sale'']"
| "statement_keywords cash_flow =
     [''cash flow'', ''operating activities'', ''investing activities'', ''financing activities'',
      ''cash provided'', ''cash used'', ''payments'', ''proceeds'', ''capital expenditures'',
      ''proceeds from'', ''payments to'', ''payments for repurchases of common stock'',
      ''Increase (Decrease)'', ''increase'', ''decrease'', ''depreciation'', ''amortization'']"

text \<open>
  The inner loop \<open>score = 0; for keyword in keywords: if keyword in description: score += 1\<close>,
  with the running score as accumulator.
\<close>

fun score_keywords :: "string list \<Rightarrow> string \<Rightarrow> nat \<Rightarrow> nat" where
  "score_keywords [] description score = score"
| "score_keywords (keyword # keywords) description score =
     score_keywords keywords description (if py_in keyword description then score + 1 else score)"

definition scores :: "string \<Rightarrow> statement_type \<Rightarrow> nat" where
  "scores description st = score_keywords (statement_keywords st) description 0"

text \<open>
  Python's \<open>max(iterable, key=f)\<close>: the first element whose key is maximal; an empty
  iterable raises ValueError (\<open>None\<close>).
\<close>

fun py_max_from :: "('a \<Rightarrow> nat) \<Rightarrow> 'a \<Rightarrow> 'a list \<Rightarrow> 'a" where
  "py_max_from key best [] = best"
| "py_max_from key best (x # xs) = py_max_from key (if key best < key x then x else best) xs"

fun py_max :: "('a \<Rightarrow> nat) \<Rightarrow> 'a list \<Rightarrow> 'a option" where
  "py_max key [] = None"
| "py_max key (x # xs) = Some (py_max_from key x xs)"

text \<open>\<open>description = concept_data.get('label') or concept_name or ''\<close>, then lower-cased.\<close>

definition description_of :: "string \<Rightarrow> string option \<Rightarrow> string" where
  "description_of concept_name label =
     py_lower (case label of
                 Some l \<Rightarrow> if l \<noteq> [] then l else concept_name
               | None \<Rightarrow> concept_name)"

text \<open>
  The body of the loop over \<open>facts.items()\<close>: the bucket the concept is appended to,
  \<open>None\<close> when it is appended to no bucket.
\<close>

definition categorize_concept :: "string \<Rightarrow> string option \<Rightarrow> statement_type option" where
  "categorize_concept concept_name label =
     (let description = description_of concept_name label in
      if list_ex (\<lambda>keyword. py_in (py_lower keyword) description) [''increase'', ''decrease'']
      then Some cash_flow
      else if py_in ''comprehensive income'' description
      then Some balance_sheet
      else if list_ex (\<lambda>st. scores description st \<noteq> 0) statement_types
      then (case py_max (scores description) statement_types of
              None \<Rightarrow> None
            | Some best_statement \<Rightarrow>
                if 0 < scores description best_statement then Some best_statement else None)
      else None)"

text \<open>The dictionary \<open>categorized\<close>: for each statement type the list of concept names.\<close>

fun categorize_loop ::
  "(string \<times> concept_data) list \<Rightarrow> (statement_type \<Rightarrow> string list) \<Rightarrow> statement_type \<Rightarrow> string list"
where
  "categorize_loop [] categorized = categorized"
| "categorize_loop ((concept_name, cd) # facts) categorized =
     categorize_loop facts
       (case categorize_concept concept_name (get_field (c_label cd)) of
          None \<Rightarrow> categorized
        | Some st \<Rightarrow> categorized (st := categorized st @ [concept_name]))"

definition categorize_concepts_by_statement ::
  "(string \<times> concept_data) list \<Rightarrow> statement_type \<Rightarrow> string list" where
  "categorize_concepts_by_statement facts = categorize_loop facts (\<lambda>st. [])"

text \<open>
  The classifier as the specification words it: a bucket's score is the number of entries
  of its keyword list that occur in the lower-cased label, and the buckets are ranked in
  the fixed order income statement, balance sheet, cash flow.
\<close>

definition keyword_hits :: "statement_type \<Rightarrow> string \<Rightarrow> nat" where
  "keyword_hits st description =
     length (filter (\<lambda>keyword. py_in keyword description) (statement_keywords st))"

fun bucket_rank :: "statement_type \<Rightarrow> nat" where
  "bucket_rank income_statement = 0"
| "bucket_rank balance_sheet = 1"
| "bucket_rank cash_flow = 2"

section \<open>Period matching and extraction: \<open>SECService._extract_financial_data\<close>\<close>

text \<open>
  The test on the fiscal period, written twice in the source:
  \<open>value_fp == 'FY' or value_fp == 'Q4' or value_fp == '' or value_fp in ['Q1', 'Q2', 'Q3', 'Q4']\<close>
  with \<open>value_fp = value.get('fp', '')\<close>.
\<close>

definition fp_accepted :: "string option \<Rightarrow> bool" where
  "fp_accepted value_fp =
     (value_fp = Some ''FY'' \<or> value_fp = Some ''Q4'' \<or> value_fp = Some '''' \<or>
      (case value_fp of None \<Rightarrow> False | Some s \<Rightarrow> s \<in> set [''Q1'', ''Q2'', ''Q3'', ''Q4'']))"

text \<open>
  \<open>value_end and str(period) in value_end\<close> with \<open>value_end = value.get('end', '')\<close>:
  an absent, null or empty end date is falsy and stops the test.
\<close>

definition end_contains :: "string option \<Rightarrow> string \<Rightarrow> bool" where
  "end_contains value_end period =
     (case value_end of None \<Rightarrow> False | Some e \<Rightarrow> e \<noteq> [] \<and> py_in period e)"

text \<open>The condition of the concept-selection pass (the one that sets \<open>has_reported_value\<close>).\<close>

definition reported_value_match :: "sec_value \<Rightarrow> string \<Rightarrow> string \<Rightarrow> bool" where
  "reported_value_match v report_type period =
     (v_form v = Some report_type \<and>
      end_contains (v_end v) period \<and>
      fp_accepted (get_default (v_fp v) '''') \<and>
      v_val v \<noteq> None)"

text \<open>The condition \<open>period_match\<close> of the value-selection pass.\<close>

definition period_match :: "sec_value \<Rightarrow> string \<Rightarrow> string \<Rightarrow> bool" where
  "period_match v report_type period =
     (v_form v = Some report_type \<and>
      end_contains (v_end v) period \<and>
      fp_accepted (get_default (v_fp v) ''''))"

text \<open>
  The two nested loops over \<open>concept_data['units'].items()\<close> and its value lists that set
  \<open>has_reported_value\<close> at the first match.
\<close>

definition has_reported_value :: "concept_data \<Rightarrow> string \<Rightarrow> string \<Rightarrow> bool" where
  "has_reported_value cd report_type period =
     (case c_units cd of
        None \<Rightarrow> False
      | Some units \<Rightarrow>
          list_ex (\<lambda>(unit_key, vals). list_ex (\<lambda>v. reported_value_match v report_type period) vals)
            units)"

text \<open>
  The first pass: \<open>reported_concepts[f"{category}.{concept_name}"] = concept_data\<close> for
  every concept with a reported value. A category whose data is not a dictionary
  (\<open>None\<close>) is skipped.
\<close>

fun reported_in_category ::
  "string \<Rightarrow> (string \<times> concept_data) list \<Rightarrow> string \<Rightarrow> string \<Rightarrow>
   (string \<times> concept_data) list \<Rightarrow> (string \<times> concept_data) list" where
  "reported_in_category category [] report_type period reported = reported"
| "reported_in_category category ((concept_name, cd) # rest) report_type period reported =
     reported_in_category category rest report_type period
       (if has_reported_value cd report_type period
        then AList.update (category @ ''.'' @ concept_name) cd reported
        else reported)"

fun reported_concepts_of ::
  "(string \<times> (string \<times> concept_data) list option) list \<Rightarrow> string \<Rightarrow> string \<Rightarrow>
   (string \<times> concept_data) list \<Rightarrow> (string \<times> concept_data) list" where
  "reported_concepts_of [] report_type period reported = reported"
| "reported_concepts_of ((category, None) # facts) report_type period reported =
     reported_concepts_of facts report_type period reported"
| "reported_concepts_of ((category, Some category_data) # facts) report_type period reported =
     reported_concepts_of facts report_type period
       (reported_in_category category category_data report_type period reported)"

text \<open>An entry of a statement bucket, and the result dictionary \<open>financial_data\<close>
  (its bookkeeping keys \<open>raw_data\<close>, \<open>all_labels\<close> and \<open>all_concepts\<close> are left out;
  \<open>fd_error\<close> says that the handler of the function stored the key \<open>error\<close>).\<close>

record statement_entry =
  e_value :: "rat option"
  e_unit :: string
  e_period :: "string option"
  e_fiscal_year :: "int option"
  e_fiscal_period :: "string option"
  e_filing_date :: "string option"
  e_accession_number :: "string option"
  e_label :: "string option"

record financial_data =
  fd_statements :: "statement_type \<Rightarrow> (string \<times> statement_entry) list"
  fd_error :: bool

text \<open>
  The second pass, for one concept: the loops over the units and their values leave at the
  first value for which \<open>period_match\<close> holds (\<open>break\<close> out of both loops).
\<close>

fun first_period_match ::
  "(string \<times> sec_value list) list \<Rightarrow> string \<Rightarrow> string \<Rightarrow> (string \<times> sec_value) option" where
  "first_period_match [] report_type period = None"
| "first_period_match ((unit_key, vals) # units) report_type period =
     (case List.find (\<lambda>v. period_match v report_type period) vals of
        Some v \<Rightarrow> Some (unit_key, v)
      | None \<Rightarrow> first_period_match units report_type period)"

definition make_entry :: "string \<Rightarrow> concept_data \<Rightarrow> string \<Rightarrow> sec_value \<Rightarrow> statement_entry" where
  "make_entry concept_name cd unit_key v =
     \<lparr> e_value = v_val v, e_unit = unit_key, e_period = v_end v, e_fiscal_year = v_fy v,
       e_fiscal_period = get_field (v_fp v), e_filing_date = v_filed v,
       e_accession_number = v_accn v, e_label = get_default (c_label cd) concept_name \<rparr>"

text \<open>
  The loop over the concept names of one statement type. \<open>all_concepts[concept_name]\<close>
  raises KeyError on a missing name; the handler of the function then stores the key
  \<open>error\<close> and the loops are left.
\<close>

fun extract_concepts ::
  "statement_type \<Rightarrow> string list \<Rightarrow> (string \<times> concept_data) list \<Rightarrow> string \<Rightarrow> string \<Rightarrow>
   financial_data \<Rightarrow> financial_data" where
  "extract_concepts st [] all_concepts report_type period fd = fd"
| "extract_concepts st (concept_name # concepts) all_concepts report_type period fd =
     (case map_of all_concepts concept_name of
        None \<Rightarrow> fd \<lparr> fd_error := True \<rparr>
      | Some cd \<Rightarrow>
          extract_concepts st concepts all_concepts report_type period
            (case c_units cd of
               None \<Rightarrow> fd
             | Some units \<Rightarrow>
                 (case first_period_match units report_type period of
                    None \<Rightarrow> fd
                  | Some (unit_key, v) \<Rightarrow>
                      fd \<lparr> fd_statements := (fd_statements fd)
                            (st := AList.update concept_name (make_entry concept_name cd unit_key v)
                                     (fd_statements fd st)) \<rparr>)))"

fun extract_statements ::
  "statement_type list \<Rightarrow> (statement_type \<Rightarrow> string list) \<Rightarrow> (string \<times> concept_data) list \<Rightarrow>
   string \<Rightarrow> string \<Rightarrow> financial_data \<Rightarrow> financial_data" where
  "extract_statements [] categorized all_concepts report_type period fd = fd"
| "extract_statements (st # sts) categorized all_concepts report_type period fd =
     (let fd' = extract_concepts st (categorized st) all_concepts report_type period fd in
      if fd_error fd' then fd'
      else extract_statements sts categorized all_concepts report_type period fd')"

text \<open>The branch \<open>if 'facts' in data\<close> of \<open>_extract_financial_data\<close>.\<close>

definition extract_financial_data ::
  "(string \<times> (string \<times> concept_data) list option) list \<Rightarrow> string \<Rightarrow> string \<Rightarrow> financial_data" where
  "extract_financial_data facts report_type period =
     (let reported_concepts = reported_concepts_of facts report_type period [];
          all_concepts = reported_concepts;
          categorized_concepts = categorize_concepts_by_statement all_concepts
      in extract_statements statement_types categorized_concepts all_concepts report_type period
           \<lparr> fd_statements = (\<lambda>st. []), fd_error = False \<rparr>)"

text \<open>
  The period matcher as the specification words it: the form equals the report type, the
  period string is a substring of the period end, the fiscal period is one of
  FY, Q4, "", Q1, Q2, Q3, and the value is not null.
\<close>

definition PeriodMatcher_matches :: "sec_value \<Rightarrow> string \<Rightarrow> string \<Rightarrow> bool" where
  "PeriodMatcher_matches v report_type period =
     (v_form v = Some report_type \<and>
      py_in period (case v_end v of None \<Rightarrow> '''' | Some e \<Rightarrow> e) \<and>
      get_default (v_fp v) '''' \<in> Some ` {''FY'', ''Q4'', '''', ''Q1'', ''Q2'', ''Q3''} \<and>
      v_val v \<noteq> None)"

section \<open>Python floats\<close>

text \<open>
  A finite Python \<open>float\<close> (an IEEE 754 double) is modelled by the rational number it
  denotes. \<open>fl\<close> rounds a rational to the nearest double, ties to even, with 53
  significant bits; every arithmetic operation of the source is the exact operation
  followed by \<open>fl\<close>. Overflow, subnormal numbers, infinities and NaN are not modelled.
\<close>

definition pow2 :: "int \<Rightarrow> rat" where
  "pow2 e = (if 0 \<le> e then 2 ^ nat e else 1 / 2 ^ nat (- e))"

definition round_half_even :: "rat \<Rightarrow> int" where
  "round_half_even x =
     (let f = \<lfloor>x\<rfloor>; d = x - of_int f in
      if d < 1 / 2 then f else if 1 / 2 < d then f + 1 else if even f then f else f + 1)"

text \<open>\<open>ilog2 q\<close> is the integer \<open>k\<close> with \<open>2 ^ k \<le> q < 2 ^ (k + 1)\<close>, for \<open>q > 0\<close>.\<close>

definition ilog2 :: "rat \<Rightarrow> int" where
  "ilog2 q =
     (let (a, b) = quotient_of q; k = bitlen a - bitlen b in
      if pow2 k \<le> q then k else k - 1)"

definition fl :: "rat \<Rightarrow> rat" where
  "fl q =
     (if q = 0 then 0
      else let e = ilog2 \<bar>q\<bar> - 52; m = round_half_even (\<bar>q\<bar> / pow2 e)
           in sgn q * of_int m * pow2 e)"

datatype py_error = ZeroDivisionError | ValueError


text \<open>\<open>a / b\<close> on floats raises ZeroDivisionError when \<open>b\<close> is zero.\<close>

definition py_div :: "rat \<Rightarrow> rat \<Rightarrow> py_error + rat" where
  "py_div a b = (if b = 0 then Inl ZeroDivisionError else Inr (fl (a / b)))"

text \<open>\<open>(a / b) * 100\<close>\<close>

definition percent :: "rat \<Rightarrow> rat \<Rightarrow> py_error + rat" where
  "percent a b = (case py_div a b of Inl e \<Rightarrow> Inl e | Inr q \<Rightarrow> Inr (fl (q * 100)))"

text \<open>
  \<open>round(value, 2)\<close>: the double nearest to the decimal that the exact value of the float
  rounds to, ties to even.
\<close>

definition py_round2 :: "rat \<Rightarrow> rat" where
  "py_round2 x = fl (of_int (round_half_even (x * 100)) / 100)"

text \<open>\<open>f"{value:.2f}"\<close>: sign, integer digits, a point and two decimals.\<close>

definition digit_char :: "nat \<Rightarrow> char" where
  "digit_char d = char_of (48 + d)"

fun digits_of :: "nat \<Rightarrow> string" where
  "digits_of n = (if n < 10 then [digit_char n] else digits_of (n div 10) @ [digit_char (n mod 10)])"

definition format_2f :: "rat \<Rightarrow> string" where
  "format_2f x =
     (let n = nat (round_half_even (\<bar>x\<bar> * 100)) in
      (if x < 0 then ''-'' else '''') @ digits_of (n div 100) @ ''.'' @
      [digit_char (n mod 100 div 10), digit_char (n mod 10)])"

section \<open>Ratio calculator (app/services/financial\_ratios.py)\<close>



text \<open>The dictionary \<open>values\<close> built by \<open>_extract_key_values\<close>.\<close>

record key_values =
  revenue :: rat
  gross_profit :: rat
  operating_income :: rat
  net_income :: rat
  cost_of_goods_sold :: rat
  depreciation_amortization :: rat
  interest_expense :: rat
  shares_outstanding :: rat
  total_assets :: rat
  current_assets :: rat
  total_liabilities :: rat
  current_liabilities :: rat
  total_equity :: rat
  cash :: rat
  inventory :: rat
  accounts_receivable :: rat
  operating_cash_flow :: rat
  capex :: rat


record ratio_result =
  r_value :: rat
  r_label :: string
  r_formatted :: string

definition format_ratio_value :: "rat \<Rightarrow> string \<Rightarrow> string" where
  "format_ratio_value x label =
     (if py_in ''Margin'' label \<or> py_in ''ROE'' label \<or> py_in ''ROA'' label \<or> py_in ''ROIC'' label
      then format_2f x @ ''%''
      else if py_in ''Ratio'' label \<or> py_in ''Turnover'' label
      then format_2f x @ ''x''
      else if py_in ''Per Share'' label \<or> py_in ''Book Value'' label
      then ''$'' @ format_2f x
      else if py_in ''Revenue'' label
      then ''$'' @ format_2f x @ ''M''
      else format_2f x)"

definition create_ratio_result :: "rat \<Rightarrow> string \<Rightarrow> ratio_result" where
  "create_ratio_result x label =
     \<lparr> r_value = py_round2 x, r_label = label, r_formatted = format_ratio_value x label \<rparr>"

text \<open>
  \<open>_calculate_ratios\<close> is a straight sequence of statements
  \<open>if condition: ratios[key] = self._create_ratio_result(value, label)\<close>.
  A block is one such statement: the condition, the key, the value computed when the
  condition holds (or the exception its computation raises) and the label.
  \<open>run_blocks\<close> executes the statements in order on the dictionary \<open>ratios\<close>.
\<close>

type_synonym ratio_block = "bool \<times> string \<times> (py_error + rat) \<times> string"

fun run_blocks ::
  "ratio_block list \<Rightarrow> (string \<rightharpoonup> ratio_result) \<Rightarrow> py_error + (string \<rightharpoonup> ratio_result)" where
  "run_blocks [] ratios = Inr ratios"
| "run_blocks ((condition, key, computed, label) # blocks) ratios =
     (if condition
      then (case computed of
              Inl e \<Rightarrow> Inl e
            | Inr x \<Rightarrow> run_blocks blocks (ratios (key \<mapsto> create_ratio_result x label)))
      else run_blocks blocks ratios)"

definition ratio_blocks :: "key_values \<Rightarrow> ratio_block list" where
  "ratio_blocks v =
     (let ebitda = fl (operating_income v + depreciation_amortization v);
          total_capitalization = fl (total_liabilities v + total_equity v);
          invested_capital = fl (total_assets v - current_liabilities v)
      in
      [(0 < revenue v, ''revenue'', Inr (revenue v), ''Revenue''),
       (0 < revenue v \<and> 0 < gross_profit v, ''gross_profit_margin'',
          percent (gross_profit v) (revenue v), ''Gross Profit Margin''),
       (0 < revenue v \<and> operating_income v \<noteq> 0, ''operating_margin'',
          percent (operating_income v) (revenue v), ''Operating Margin''),
       (0 < revenue v \<and> net_income v \<noteq> 0, ''net_margin'',
          percent (net_income v) (revenue v), ''Net Margin''),
       (0 < revenue v \<and> ebitda \<noteq> 0, ''ebitda_margin'',
          percent ebitda (revenue v), ''EBITDA Margin''),
       (0 < current_liabilities v, ''current_ratio'',
          py_div (current_assets v) (current_liabilities v), ''Current Ratio''),
       (0 < current_liabilities v, ''quick_ratio'',
          py_div (fl (current_assets v - inventory v)) (current_liabilities v), ''Quick Ratio''),
       (0 < current_liabilities v, ''cash_ratio'',
          py_div (cash v) (current_liabilities v), ''Cash Ratio''),
       (0 < total_equity v, ''debt_to_equity'',
          py_div (total_liabilities v) (total_equity v), ''Debt to Equity''),
       (0 < total_capitalization, ''debt_to_total_capitalization'',
          py_div (total_liabilities v) total_capitalization, ''Debt to Total Capitalization''),
       (0 < total_equity v, ''total_assets_to_equity'',
          py_div (total_assets v) (total_equity v), ''Total Assets/Equity''),
       (0 < total_equity v \<and> net_income v \<noteq> 0, ''roe'',
          percent (net_income v) (total_equity v), ''Return on Equity (ROE)''),
       (0 < total_assets v \<and> net_income v \<noteq> 0, ''roa'',
          percent (net_income v) (total_assets v), ''Return on Assets (ROA)''),
       (0 < invested_capital \<and> net_income v \<noteq> 0, ''roic'',
          percent (net_income v) invested_capital, ''Return on Invested Capital (ROIC)''),
       (0 < interest_expense v, ''interest_coverage'',
          py_div (operating_income v) (interest_expense v), ''Interest Coverage Ratio''),
       (0 < inventory v, ''inventory_turnover'',
          py_div (cost_of_goods_sold v) (inventory v), ''Inventory Turnover''),
       (0 < revenue v, ''receivables_ratio'',
          py_div (accounts_receivable v) (revenue v), ''Receivables Ratio''),
       (net_income v \<noteq> 0, ''operating_cash_flow_to_net_income'',
          py_div (operating_cash_flow v) (net_income v), ''Operating Cash Flow/Net Income''),
       (0 < depreciation_amortization v, ''capex_to_depreciation'',
          py_div (capex v) (depreciation_amortization v), ''Capex/Depreciation''),
       (0 < total_equity v, ''book_value'',
          py_div (total_equity v) 1000000, ''Book Value''),
       (0 < total_equity v, ''tangible_book_value'',
          py_div (total_equity v) 1000000, ''Tangible Book Value''),
       (0 < total_assets v, ''net_working_capital_ratio'',
          py_div (fl (current_assets v - current_liabilities v)) (total_assets v),
          ''Net Working Capital Ratio''),
       (0 < shares_outstanding v \<and> net_income v \<noteq> 0, ''earnings_per_share'',
          py_div (net_income v) (shares_outstanding v), ''Earnings Per Share'')])"

definition calculate_ratios :: "key_values \<Rightarrow> py_error + (string \<rightharpoonup> ratio_result)" where
  "calculate_ratios v = run_blocks (ratio_blocks v) Map.empty"


text \<open>The extracted value set of the end-to-end example (all other keys are 0).\<close>

definition example_values :: key_values where
  "example_values =
     \<lparr> revenue = 1000, gross_profit = 400, operating_income = 0, net_income = 90,
       cost_of_goods_sold = 0, depreciation_amortization = 0, interest_expense = 0,
       shares_outstanding = 10, total_assets = 0, current_assets = 200, total_liabilities = 300,
       current_liabilities = 100, total_equity = 500, cash = 0, inventory = 0,
       accounts_receivable = 0, operating_cash_flow = 0, capex = 0 \<rparr>"

section \<open>XBRL instance parser: \<open>XBRLParser.parse_xbrl_instance\<close>\<close>

text \<open>\<open>str.isspace\<close>, \<open>str.strip()\<close> and \<open>str.isdigit\<close> on Latin-1 characters.\<close>

definition py_isspace :: "char \<Rightarrow> bool" where
  "py_isspace c = (let n = (of_char c :: nat) in
     (9 \<le> n \<and> n \<le> 13) \<or> (28 \<le> n \<and> n \<le> 32) \<or> n = 133 \<or> n = 160)"

definition py_strip :: "string \<Rightarrow> string" where
  "py_strip s = rev (dropWhile py_isspace (rev (dropWhile py_isspace s)))"

definition is_ascii_digit :: "char \<Rightarrow> bool" where
  "is_ascii_digit c = (let n = (of_char c :: nat) in 48 \<le> n \<and> n \<le> 57)"

definition py_isdigit_char :: "char \<Rightarrow> bool" where
  "py_isdigit_char c = (let n = (of_char c :: nat) in
     (48 \<le> n \<and> n \<le> 57) \<or> n = 178 \<or> n = 179 \<or> n = 185)"

definition py_isdigit :: "string \<Rightarrow> bool" where
  "py_isdigit s = (s \<noteq> [] \<and> list_all py_isdigit_char s)"

text \<open>\<open>s.replace(c, '')\<close> for a single character \<open>c\<close>.\<close>

definition py_remove :: "char \<Rightarrow> string \<Rightarrow> string" where
  "py_remove c s = filter (\<lambda>x. x \<noteq> c) s"

text \<open>\<open>s.split(c)[-1]\<close>: what follows the last occurrence of \<open>c\<close>, or all of \<open>s\<close>.\<close>

definition py_split_last :: "char \<Rightarrow> string \<Rightarrow> string" where
  "py_split_last c s = rev (takeWhile (\<lambda>x. x \<noteq> c) (rev s))"

text \<open>
  \<open>float(s)\<close> for a string. The source calls it only on strings that consist of digits,
  points and minus signs; on those Python accepts an optional leading minus sign followed
  by digits with at most one point and at least one ASCII digit, and raises ValueError on
  everything else. The result is the double nearest to the decimal.
\<close>

definition nat_of_digits :: "string \<Rightarrow> nat" where
  "nat_of_digits ds = foldl (\<lambda>a c. 10 * a + (of_char c - 48)) 0 ds"

definition py_float_str :: "string \<Rightarrow> py_error + rat" where
  "py_float_str s =
     (let neg = (case s of [] \<Rightarrow> False | c # _ \<Rightarrow> c = CHR ''-'');
          body = (if neg then tl s else s);
          ip = takeWhile is_ascii_digit body;
          rest = dropWhile is_ascii_digit body;
          has_point = (case rest of [] \<Rightarrow> False | c # _ \<Rightarrow> c = CHR ''.'');
          fp = (if has_point then takeWhile is_ascii_digit (tl rest) else []);
          trailing = (if has_point then dropWhile is_ascii_digit (tl rest) else rest)
      in if trailing \<noteq> [] \<or> ip @ fp = [] then Inl ValueError
         else Inr (fl ((if neg then - 1 else 1) * of_nat (nat_of_digits (ip @ fp))
                       / 10 ^ length fp)))"

text \<open>
  The instance document as the parser sees it. A context element has its \<open>id\<close>
  attribute and, when it has a period, the texts of the start date, end date and instant.
  \<open>doc_elements\<close> is the list of elements that \<open>root.findall('.//xbrl:*')\<close> yields, in
  document order, each with its tag in the form \<open>{namespace}name\<close>, its text and the
  attributes the parser reads.
\<close>

record context_info =
  start_date :: "string option"
  end_date :: "string option"
  instant :: "string option"

record context_element =
  ctx_id :: "string option"
  ctx_period :: "context_info option"

record element =
  el_tag :: string
  el_text :: "string option"
  el_contextRef :: "string option"
  el_unitRef :: "string option"
  el_decimals :: "string option"

record instance_doc =
  doc_contexts :: "context_element list"
  doc_elements :: "element list"

text \<open>The entry stored for a fact; its \<open>context\<close> is \<open>None\<close> for the empty dictionary.\<close>

datatype xbrl_value = Number rat | Text string

record xbrl_fact =
  f_value :: xbrl_value
  f_context :: "context_info option"
  f_unit_ref :: "string option"
  f_decimals :: "string option"
  f_raw_value :: string

text \<open>The loop over the context elements; the dictionary \<open>contexts\<close> is keyed by the id,
  which may be \<open>None\<close>.\<close>

fun contexts_loop ::
  "context_element list \<Rightarrow> (string option \<rightharpoonup> context_info) \<Rightarrow> (string option \<rightharpoonup> context_info)"
where
  "contexts_loop [] contexts = contexts"
| "contexts_loop (ctx # rest) contexts =
     contexts_loop rest
       (case ctx_period ctx of
          None \<Rightarrow> contexts
        | Some p \<Rightarrow> contexts (ctx_id ctx \<mapsto> p))"

text \<open>
  \<open>float(value) if value.replace('.', '').replace('-', '').isdigit() else value\<close>
\<close>

definition coerce_value :: "string \<Rightarrow> py_error + xbrl_value" where
  "coerce_value v =
     (if py_isdigit (py_remove (CHR ''-'') (py_remove (CHR ''.'') v))
      then (case py_float_str v of Inl e \<Rightarrow> Inl e | Inr x \<Rightarrow> Inr (Number x))
      else Inr (Text v))"

definition xbrl_instance_ns :: string where
  "xbrl_instance_ns = ''{http://www.xbrl.org/2003/instance}''"


text \<open>
  The loop over the elements. An exception of \<open>float\<close> leaves the loop; the handler of
  \<open>parse_xbrl_instance\<close> then returns the empty dictionary.
\<close>

fun facts_loop ::
  "element list \<Rightarrow> (string option \<rightharpoonup> context_info) \<Rightarrow> (string \<times> xbrl_fact) list \<Rightarrow>
   py_error + (string \<times> xbrl_fact) list" where
  "facts_loop [] contexts facts = Inr facts"
| "facts_loop (fact_el # rest) contexts facts =
     (if prefix xbrl_instance_ns (el_tag fact_el)
      then (let concept = py_split_last (CHR ''}'') (el_tag fact_el);
                context_ref = el_contextRef fact_el;
                context_info = contexts context_ref
            in case el_text fact_el of
                 None \<Rightarrow> facts_loop rest contexts facts
               | Some v \<Rightarrow>
                   if py_strip v \<noteq> []
                   then (case coerce_value v of
                           Inl e \<Rightarrow> Inl e
                         | Inr x \<Rightarrow>
                             facts_loop rest contexts
                               (AList.update concept
                                  \<lparr> f_value = x, f_context = context_info,
                                    f_unit_ref = el_unitRef fact_el,
                                    f_decimals = el_decimals fact_el,
                                    f_raw_value = v \<rparr> facts))
                   else facts_loop rest contexts facts)
      else facts_loop rest contexts facts)"

text \<open>
  The result of \<open>parse_xbrl_instance\<close>: \<open>None\<close> is the empty dictionary that the
  exception handler returns. The argument is \<open>None\<close> when the request, the XML parser
  or an element query raised.
\<close>

record instance_data =
  i_contexts :: "string option \<rightharpoonup> context_info"
  i_facts :: "(string \<times> xbrl_fact) list"

definition parse_xbrl_instance :: "instance_doc option \<Rightarrow> instance_data option" where
  "parse_xbrl_instance response =
     (case response of
        None \<Rightarrow> None
      | Some doc \<Rightarrow>
          (let contexts = contexts_loop (doc_contexts doc) Map.empty in
           case facts_loop (doc_elements doc) contexts [] of
             Inl e \<Rightarrow> None
           | Inr facts \<Rightarrow> Some \<lparr> i_contexts = contexts, i_facts = facts \<rparr>))"



definition malformed_number_doc :: instance_doc where
  "malformed_number_doc =
     \<lparr> doc_contexts = [],
       doc_elements =
         [\<lparr> el_tag = ''{http://www.xbrl.org/2003/instance}Revenues'', el_text = Some ''100'',
            el_contextRef = None, el_unitRef = Some ''USD'', el_decimals = Some ''0'' \<rparr>,
          \<lparr> el_tag = ''{http://www.xbrl.org/2003/instance}Assets'', el_text = Some ''1.2.3'',
            el_contextRef = None, el_unitRef = Some ''USD'', el_decimals = Some ''0'' \<rparr>] \<rparr>"

section \<open>XBRL categorisation: \<open>XBRLParser.categorize_financial_data\<close>\<close>

text \<open>The keys of \<open>categorized_data\<close>: the three statements and \<open>other\<close>.\<close>

datatype xbrl_category = Statement statement_type | Other

fun xbrl_patterns :: "statement_type \<Rightarrow> string list" where
  "xbrl_patterns income_statement =
     [''Revenues'', ''RevenueFromContractWithCustomerExcludingAssessedTax'',
      ''SalesRevenueNet'', ''CostOfGoodsAndServicesSold'', ''CostOfRevenue'',
      ''GrossProfit'', ''OperatingExpenses'', ''SellingAndMarketingExpense'',
      ''GeneralAndAdministrativeExpense'', ''ResearchAndDevelopmentExpense'',
      ''OperatingIncomeLoss'', ''InterestExpense'', ''InterestIncome'',
      ''IncomeTaxExpenseBenefit'', ''NetIncomeLoss'', ''EarningsPerShareBasic'',
      ''EarningsPerShareDiluted'', ''WeightedAverageNumberOfSharesOutstandingBasic'',
      ''WeightedAverageNumberOfSharesOutstandingDiluted'',
      ''IncomeLossFromContinuingOperationsBeforeIncomeTaxes'',
      ''IncomeLossFromContinuingOperationsAfterIncomeTaxes'']"
| "xbrl_patterns balance_sheet =
     [''Assets'', ''CurrentAssets'', ''CashAndCashEquivalentsAtCarryingValue'',
      ''CashAndCashEquivalents'', ''AccountsReceivableNetCurrent'', ''InventoryNet'',
      ''InventoryGross'', ''PrepaidExpenseAndOtherAssetsCurrent'', ''PropertyPlantAndEquipmentNet'',
      ''PropertyPlantAndEquipmentGross'', ''IntangibleAssetsNetExcludingGoodwill'',
      ''IntangibleAssetsGrossExcludingGoodwill'', ''Goodwill'', ''Liabilities'',
      ''CurrentLiabilities'', ''AccountsPayableCurrent'', ''AccruedLiabilitiesCurrent'',
      ''LongTermDebtNoncurrent'', ''DeferredTaxLiabilitiesNoncurrent'', ''StockholdersEquity'',
      ''CommonStockValue'', ''RetainedEarningsAccumulatedDeficit'', ''TreasuryStockValue'',
      ''AdditionalPaidInCapital'', ''TotalStockholdersEquity'']"
| "xbrl_patterns cash_flow =
     [''NetCashProvidedByUsedInOperatingActivities'', ''NetCashProvidedByUsedInInvestingActivities'',
      ''NetCashProvidedByUsedInFinancingActivities'', ''CashAndCashEquivalentsPeriodIncreaseDecrease'',
      ''CashAndCashEquivalentsAtCarryingValue'', ''PaymentsToAcquirePropertyPlantAndEquipment'',
      ''ProceedsFromSaleOfPropertyPlantAndEquipment'',
      ''PaymentsForBusinessAcquisitionsNetOfCashAcquired'',
      ''ProceedsFromIssuanceOfCommonStock'', ''PaymentsForRepurchaseOfCommonStock'',
      ''PaymentsOfDividends'', ''CashAndCashEquivalentsAtBeginningOfPeriod'',
      ''CashAndCashEquivalentsAtEndOfPeriod'']"

definition xbrl_category_of :: "string \<Rightarrow> xbrl_category" where
  "xbrl_category_of concept =
     (let concept_lower = py_lower concept in
      if list_ex (\<lambda>keyword. py_in keyword concept_lower) [''increase'', ''decrease'']
      then Statement cash_flow
      else (case List.find
                   (\<lambda>st. list_ex (\<lambda>pattern. py_in (py_lower pattern) concept_lower)
                           (xbrl_patterns st))
                   statement_types of
              Some st \<Rightarrow> Statement st
            | None \<Rightarrow> Other))"

fun categorize_financial_data_loop ::
  "(string \<times> xbrl_fact) list \<Rightarrow> (xbrl_category \<Rightarrow> (string \<times> xbrl_fact) list) \<Rightarrow>
   xbrl_category \<Rightarrow> (string \<times> xbrl_fact) list" where
  "categorize_financial_data_loop [] categorized_data = categorized_data"
| "categorize_financial_data_loop ((concept, d) # facts) categorized_data =
     categorize_financial_data_loop facts
       (categorized_data
          (xbrl_category_of concept :=
             AList.update concept d (categorized_data (xbrl_category_of concept))))"

definition categorize_financial_data ::
  "(string \<times> xbrl_fact) list \<Rightarrow> xbrl_category \<Rightarrow> (string \<times> xbrl_fact) list" where
  "categorize_financial_data facts = categorize_financial_data_loop facts (\<lambda>c. [])"

section \<open>Statement resolver: \<open>SECService.get_financial_statements\<close>\<close>

text \<open>
  The network is a record of collaborators, each the answer the service gets:
  \<^item> \<open>get_company_filings cik\<close>: the filings that the loop \<open>for filing in filings\<close>
    iterates over (empty when the lookup found nothing);
  \<^item> \<open>get_xbrl_files cik accession\<close>: the keys of the dictionary of XBRL file URLs
    (empty when the index page could not be read);
  \<^item> \<open>fetch_instance cik accession\<close>: the instance document of the filing, \<open>None\<close>
    when the request, the XML parser or an element query raised;
  \<^item> \<open>get_reported_concepts_from_filing\<close>: \<open>None\<close> for the empty dictionary, else the
    value of the key \<open>reported_concepts\<close>;
  \<^item> \<open>session_get url\<close>: the response of \<open>self.session.get(url)\<close>;
  \<^item> \<open>extract_json data report_type period\<close>: the dictionary that
    \<open>_extract_financial_data\<close> returns for a JSON document (it always holds the three
    statement keys, so it is never the empty dictionary);
  \<^item> \<open>facts_document d\<close>: the document \<open>{'facts': d}\<close>.
  \<open>'j\<close> is the type of JSON documents.
\<close>

record filing =
  fl_form :: "string jfield"
  fl_filingDate :: "string jfield"
  fl_accessionNumber :: "string option"

datatype filing_item = NotADictItem | FilingDict filing

text \<open>
  A response: status 200 with a JSON dictionary (\<open>None\<close> when \<open>response.json()\<close> or
  \<open>data.keys()\<close> raises), status 404, another status, or an exception of the request.
\<close>

datatype 'j response = Response200 "'j option" | Response404 | ResponseOther | RequestRaised

record 'j env =
  get_company_filings :: "string \<Rightarrow> filing_item list"
  get_xbrl_files :: "string \<Rightarrow> string \<Rightarrow> string list"
  fetch_instance :: "string \<Rightarrow> string \<Rightarrow> instance_doc option"
  get_reported_concepts_from_filing :: "string \<Rightarrow> string \<Rightarrow> string \<Rightarrow> (string \<times> 'j) list option"
  session_get :: "string \<Rightarrow> 'j response"
  extract_json :: "'j \<Rightarrow> string \<Rightarrow> string \<Rightarrow> financial_data"
  facts_document :: "(string \<times> 'j) list \<Rightarrow> 'j"

text \<open>
  The dictionary that \<open>XBRLParser.get_financial_statements_xbrl\<close> returns (its keys
  \<open>schema\<close>, \<open>labels\<close>, \<open>xbrl_files\<close> and \<open>parsing_method\<close> are left out).
\<close>

record xbrl_result =
  financial_statements :: "xbrl_category \<Rightarrow> (string \<times> xbrl_fact) list"
  x_contexts :: "string option \<rightharpoonup> context_info"
  total_facts :: nat

definition XBRLParser_get_financial_statements_xbrl ::
  "'j env \<Rightarrow> string \<Rightarrow> string \<Rightarrow> xbrl_result option" where
  "XBRLParser_get_financial_statements_xbrl env cik accession_number =
     (let xbrl_files = get_xbrl_files env cik accession_number in
      if xbrl_files = [] then None
      else (let instance_data =
                  (if ''instance'' \<in> set xbrl_files
                   then parse_xbrl_instance (fetch_instance env cik accession_number)
                   else None)
            in case instance_data of
                 Some d \<Rightarrow>
                   Some \<lparr> financial_statements = categorize_financial_data (i_facts d),
                          x_contexts = i_contexts d,
                          total_facts = length (i_facts d) \<rparr>
               | None \<Rightarrow> None))"

text \<open>
  The search for the target filing. \<open>filing.get('form', '')\<close> that is null makes
  \<open>.lower()\<close> raise, a null filing date makes the operator \<open>in\<close> raise.
\<close>

datatype lookup_error = AttributeError | TypeError

fun find_target_accession ::
  "filing_item list \<Rightarrow> string \<Rightarrow> string \<Rightarrow> lookup_error + string option" where
  "find_target_accession [] report_type period = Inr None"
| "find_target_accession (NotADictItem # filings) report_type period =
     find_target_accession filings report_type period"
| "find_target_accession (FilingDict f # filings) report_type period =
     (case get_default (fl_form f) '''' of
        None \<Rightarrow> Inl AttributeError
      | Some filing_type \<Rightarrow>
          if py_in (py_lower report_type) (py_lower filing_type)
          then (case get_default (fl_filingDate f) '''' of
                  None \<Rightarrow> Inl TypeError
                | Some filing_date \<Rightarrow>
                    if py_in period filing_date then Inr (fl_accessionNumber f)
                    else find_target_accession filings report_type period)
          else find_target_accession filings report_type period)"

definition SECService_get_financial_statements_xbrl ::
  "'j env \<Rightarrow> string \<Rightarrow> string \<Rightarrow> string \<Rightarrow> xbrl_result option" where
  "SECService_get_financial_statements_xbrl env cik report_type period =
     (let filings = get_company_filings env cik in
      if filings = [] then None
      else (case find_target_accession filings report_type period of
              Inl e \<Rightarrow> None
            | Inr None \<Rightarrow> None
            | Inr (Some target_accession) \<Rightarrow>
                if target_accession = [] then None
                else XBRLParser_get_financial_statements_xbrl env cik target_accession))"

text \<open>\<open>str.zfill(width)\<close>: zeros after a leading sign.\<close>

definition py_zfill :: "nat \<Rightarrow> string \<Rightarrow> string" where
  "py_zfill width s =
     (case s of
        [] \<Rightarrow> replicate width (CHR ''0'')
      | c # rest \<Rightarrow>
          if c = CHR ''+'' \<or> c = CHR ''-''
          then c # replicate (width - length s) (CHR ''0'') @ rest
          else replicate (width - length s) (CHR ''0'') @ s)"

definition endpoints :: "string \<Rightarrow> string list" where
  "endpoints cik_padded =
     [''https://data.sec.gov/api/xbrl/companyfacts/CIK'' @ cik_padded @ ''.json'',
      ''https://data.sec.gov/submissions/CIK'' @ cik_padded @ ''.json'',
      ''https://data.sec.gov/api/xbrl/company_concept/CIK'' @ cik_padded @ ''/us-gaap/Revenues.json'']"

text \<open>
  What \<open>get_financial_statements\<close> returns: the empty dictionary, the result of the XBRL
  parser, or the dictionary of \<open>_extract_financial_data\<close>. Only the first is falsy.
\<close>

datatype statements_result = Empty | Xbrl xbrl_result | Extracted financial_data

fun py_truthy :: "statements_result \<Rightarrow> bool" where
  "py_truthy Empty = False"
| "py_truthy (Xbrl x) = True"
| "py_truthy (Extracted fd) = True"

text \<open>The calls to the collaborators of the three tiers, in the order they are made.\<close>

datatype tier_call = Tier1_xbrl | Tier2_filing | Tier3_fetch string

text \<open>The loop over the endpoints of the third tier.\<close>

fun endpoints_loop ::
  "'j env \<Rightarrow> string list \<Rightarrow> string \<Rightarrow> string \<Rightarrow> statements_result \<times> tier_call list" where
  "endpoints_loop env [] report_type period = (Empty, [])"
| "endpoints_loop env (url # urls) report_type period =
     (case session_get env url of
        Response200 (Some d) \<Rightarrow> (Extracted (extract_json env d report_type period), [Tier3_fetch url])
      | _ \<Rightarrow> (let (r, calls) = endpoints_loop env urls report_type period
              in (r, Tier3_fetch url # calls)))"

text \<open>
  \<open>get_financial_statements\<close>, with the list of tier calls it made. The test
  \<open>xbrl_data and xbrl_data.get('financial_statements')\<close> holds for every non-empty
  \<open>xbrl_data\<close>: the dictionary under \<open>financial_statements\<close> always has its four keys.
\<close>

definition get_financial_statements ::
  "'j env \<Rightarrow> string \<Rightarrow> string \<Rightarrow> string \<Rightarrow> statements_result \<times> tier_call list" where
  "get_financial_statements env cik report_type period =
     (let cik_padded = py_zfill 10 cik;
          xbrl_data = SECService_get_financial_statements_xbrl env cik report_type period
      in case xbrl_data of
           Some x \<Rightarrow> (Xbrl x, [Tier1_xbrl])
         | None \<Rightarrow>
             (let filing_data = get_reported_concepts_from_filing env cik report_type period;
                  reported = (case filing_data of None \<Rightarrow> [] | Some rc \<Rightarrow> rc)
              in if reported \<noteq> []
                 then (Extracted (extract_json env (facts_document env reported) report_type period),
                       [Tier1_xbrl, Tier2_filing])
                 else (let (r, calls) = endpoints_loop env (endpoints cik_padded) report_type period
                       in (r, [Tier1_xbrl, Tier2_filing] @ calls))))"

text \<open>\<open>get_peer_group_analysis\<close>: the dictionary from CIK to the company's data.\<close>

fun peer_group_loop ::
  "'j env \<Rightarrow> string list \<Rightarrow> string \<Rightarrow> string \<Rightarrow> (string \<times> statements_result) list \<Rightarrow>
   (string \<times> statements_result) list" where
  "peer_group_loop env [] report_type period peer_group_data = peer_group_data"
| "peer_group_loop env (cik # ciks) report_type period peer_group_data =
     (let company_data = fst (get_financial_statements env cik report_type period)
      in peer_group_loop env ciks report_type period
           (if py_truthy company_data then AList.update cik company_data peer_group_data
            else peer_group_data))"

definition get_peer_group_analysis ::
  "'j env \<Rightarrow> string list \<Rightarrow> string \<Rightarrow> string \<Rightarrow> (string \<times> statements_result) list" where
  "get_peer_group_analysis env ciks report_type period =
     (let peer_group_data = peer_group_loop env ciks report_type period []
      in if peer_group_data = [] then [] else peer_group_data)"


definition peer_env :: "unit env" where
  "peer_env =
     \<lparr> get_company_filings = (\<lambda>cik. []),
       get_xbrl_files = (\<lambda>cik accession. []),
       fetch_instance = (\<lambda>cik accession. None),
       get_reported_concepts_from_filing = (\<lambda>cik report_type period. None),
       session_get =
         (\<lambda>url. if url = ''https://data.sec.gov/api/xbrl/companyfacts/CIK0000320193.json''
                then Response200 (Some ()) else Response404),
       extract_json =
         (\<lambda>d report_type period.
            \<lparr> fd_statements =
                (\<lambda>st. [(''us-gaap.Revenues'',
                         \<lparr> e_value = Some 1000, e_unit = ''USD'', e_period = Some ''2023-09-30'',
                           e_fiscal_year = Some 2023, e_fiscal_period = Some ''FY'',
                           e_filing_date = Some ''2023-11-03'',
                           e_accession_number = Some ''0000320193-23-000106'',
                           e_label = Some ''Revenues'' \<rparr>)]),
              fd_error = False \<rparr>),
       facts_document = (\<lambda>d. ()) \<rparr>"

section \<open>Properties of the concept classifier\<close>

lemma score_keywords_count:
  "score_keywords ks d n = n + length (filter (\<lambda>k. py_in k d) ks)"
  by (induction ks arbitrary: n) simp_all

lemma scores_keyword_hits: "scores d st = keyword_hits st d"
  by (simp add: scores_def keyword_hits_def score_keywords_count)

lemma all_statement_types:
  "(\<forall>st. P st) \<longleftrightarrow> P income_statement \<and> P balance_sheet \<and> P cash_flow"
proof
  assume r: "P income_statement \<and> P balance_sheet \<and> P cash_flow"
  show "\<forall>st. P st"
  proof
    fix st show "P st" using r by (cases st) simp_all
  qed
qed simp

lemma py_lower_special: "py_lower ''increase'' = ''increase''" "py_lower ''decrease'' = ''decrease''"
  by code_simp+

lemma categorize_concept_scored:
  assumes "\<not> py_in ''increase'' (description_of n l)"
    and "\<not> py_in ''decrease'' (description_of n l)"
    and "\<not> py_in ''comprehensive income'' (description_of n l)"
  shows "categorize_concept n l =
     (let f = scores (description_of n l) in
      if f income_statement = 0 \<and> f balance_sheet = 0 \<and> f cash_flow = 0 then None
      else if f balance_sheet \<le> f income_statement \<and> f cash_flow \<le> f income_statement
      then Some income_statement
      else if f cash_flow \<le> f balance_sheet then Some balance_sheet
      else Some cash_flow)"
  using assms
  by (auto simp: categorize_concept_def statement_types_def py_lower_special Let_def)

text \<open>
  C3. For a concept whose lower-cased label contains none of "increase", "decrease" and
  "comprehensive income": each bucket's score is the number of its keywords that occur in
  the label; the concept goes to no bucket exactly when all three scores are zero; and it
  goes to bucket \<open>st\<close> exactly when the score of \<open>st\<close> is positive, no bucket scores
  higher, and every bucket earlier in the order income statement, balance sheet, cash flow
  scores strictly lower. The result is a function of the label alone, so repeated calls
  agree.
\<close>

theorem classifier_scoring_tie_break:
  assumes "\<not> py_in ''increase'' (description_of n l)"
    and "\<not> py_in ''decrease'' (description_of n l)"
    and "\<not> py_in ''comprehensive income'' (description_of n l)"
  shows "(\<forall>st. scores (description_of n l) st = keyword_hits st (description_of n l))
    \<and> (categorize_concept n l = None \<longleftrightarrow> (\<forall>st. keyword_hits st (description_of n l) = 0))
    \<and> (\<forall>st. categorize_concept n l = Some st \<longleftrightarrow>
          0 < keyword_hits st (description_of n l)
          \<and> (\<forall>st'. keyword_hits st' (description_of n l) \<le> keyword_hits st (description_of n l))
          \<and> (\<forall>st'. bucket_rank st' < bucket_rank st \<longrightarrow>
                 keyword_hits st' (description_of n l) < keyword_hits st (description_of n l)))"
proof -
  let ?h = "\<lambda>st. keyword_hits st (description_of n l)"
  have c: "categorize_concept n l =
     (if ?h income_statement = 0 \<and> ?h balance_sheet = 0 \<and> ?h cash_flow = 0 then None
      else if ?h balance_sheet \<le> ?h income_statement \<and> ?h cash_flow \<le> ?h income_statement
      then Some income_statement
      else if ?h cash_flow \<le> ?h balance_sheet then Some balance_sheet
      else Some cash_flow)"
    using categorize_concept_scored [OF assms] by (simp add: scores_keyword_hits Let_def)
  have 1: "\<forall>st. scores (description_of n l) st = ?h st"
    by (simp add: scores_keyword_hits)
  have 2: "categorize_concept n l = None \<longleftrightarrow> (\<forall>st. ?h st = 0)"
    unfolding c all_statement_types by simp
  have 3: "categorize_concept n l = Some st \<longleftrightarrow>
          0 < ?h st \<and> (\<forall>st'. ?h st' \<le> ?h st)
          \<and> (\<forall>st'. bucket_rank st' < bucket_rank st \<longrightarrow> ?h st' < ?h st)" for st
    unfolding c all_statement_types by (cases st) auto
  from 1 2 3 show ?thesis by blast
qed

theorem classifier_scoring_tie_break_witness:
  "\<not> py_in ''increase'' (description_of ''us-gaap.Revenues'' (Some ''Total Revenue''))
   \<and> \<not> py_in ''decrease'' (description_of ''us-gaap.Revenues'' (Some ''Total Revenue''))
   \<and> \<not> py_in ''comprehensive income'' (description_of ''us-gaap.Revenues'' (Some ''Total Revenue''))
   \<and> keyword_hits income_statement (description_of ''us-gaap.Revenues'' (Some ''Total Revenue'')) = 1
   \<and> keyword_hits balance_sheet (description_of ''us-gaap.Revenues'' (Some ''Total Revenue'')) = 1
   \<and> categorize_concept ''us-gaap.Revenues'' (Some ''Total Revenue'') = Some income_statement"
proof -
  let ?d = "description_of ''us-gaap.Revenues'' (Some ''Total Revenue'')"
  have h1: "\<not> py_in ''increase'' ?d" by code_simp
  have h2: "\<not> py_in ''decrease'' ?d" by code_simp
  have h3: "\<not> py_in ''comprehensive income'' ?d" by code_simp
  have i: "keyword_hits income_statement ?d = 1" by code_simp
  have b: "keyword_hits balance_sheet ?d = 1" by code_simp
  have c: "keyword_hits cash_flow ?d = 0" by code_simp
  have r: "\<And>st'. bucket_rank st' < bucket_rank income_statement \<longrightarrow> keyword_hits st' ?d < 1"
    by simp
  have a: "\<And>st'. keyword_hits st' ?d \<le> 1"
    subgoal for st' using i b c by (cases st') simp_all
    done
  from classifier_scoring_tie_break [OF h1 h2 h3]
  have "categorize_concept ''us-gaap.Revenues'' (Some ''Total Revenue'') = Some income_statement
     \<longleftrightarrow> 0 < keyword_hits income_statement ?d
          \<and> (\<forall>st'. keyword_hits st' ?d \<le> keyword_hits income_statement ?d)
          \<and> (\<forall>st'. bucket_rank st' < bucket_rank income_statement \<longrightarrow>
                 keyword_hits st' ?d < keyword_hits income_statement ?d)"
    by blast
  then have "categorize_concept ''us-gaap.Revenues'' (Some ''Total Revenue'') = Some income_statement"
    using i a r by simp
  with h1 h2 h3 i b show ?thesis by blast
qed

text \<open>
  C4. A concept whose lower-cased label contains "increase" or "decrease" is assigned to
  cash flow whatever the keyword scores are, and a remaining label that contains
  "comprehensive income" is assigned to the balance sheet. The label
  "Decrease in Inventory" goes to cash flow although "inventory" is a balance-sheet
  keyword and scoring alone would have picked the balance sheet.
\<close>

theorem classifier_short_circuit:
  "(py_in ''increase'' (description_of n l) \<or> py_in ''decrease'' (description_of n l)
      \<longrightarrow> categorize_concept n l = Some cash_flow)
   \<and> (\<not> py_in ''increase'' (description_of n l) \<and> \<not> py_in ''decrease'' (description_of n l)
      \<and> py_in ''comprehensive income'' (description_of n l)
      \<longrightarrow> categorize_concept n l = Some balance_sheet)
   \<and> categorize_concept n (Some ''Decrease in Inventory'') = Some cash_flow
   \<and> ''inventory'' \<in> set (statement_keywords balance_sheet)
   \<and> py_max (scores (py_lower ''Decrease in Inventory'')) statement_types = Some balance_sheet"
proof -
  have d: "description_of n (Some ''Decrease in Inventory'') = py_lower ''Decrease in Inventory''"
    by (simp add: description_of_def)
  have e: "py_in ''decrease'' (py_lower ''Decrease in Inventory'')" by code_simp
  have 1: "py_in ''increase'' (description_of m k) \<or> py_in ''decrease'' (description_of m k)
      \<Longrightarrow> categorize_concept m k = Some cash_flow" for m k
    by (auto simp: categorize_concept_def py_lower_special Let_def)
  have 2: "\<not> py_in ''increase'' (description_of n l) \<and> \<not> py_in ''decrease'' (description_of n l)
      \<and> py_in ''comprehensive income'' (description_of n l)
      \<longrightarrow> categorize_concept n l = Some balance_sheet"
    by (simp add: categorize_concept_def py_lower_special Let_def)
  have 3: "categorize_concept n (Some ''Decrease in Inventory'') = Some cash_flow"
    using 1 [of n "Some ''Decrease in Inventory''"] d e by simp
  have 4: "''inventory'' \<in> set (statement_keywords balance_sheet)" by simp
  have 5: "py_max (scores (py_lower ''Decrease in Inventory'')) statement_types = Some balance_sheet"
    by code_simp
  from 1 [of n l] 2 3 4 5 show ?thesis by blast
qed

theorem classifier_short_circuit_witness:
  "py_in ''increase'' (description_of ''us-gaap.IncreaseDecreaseInAccountsPayable''
       (Some ''Increase (Decrease) in Accounts Payable''))
   \<and> categorize_concept ''us-gaap.IncreaseDecreaseInAccountsPayable''
       (Some ''Increase (Decrease) in Accounts Payable'') = Some cash_flow
   \<and> \<not> py_in ''increase'' (description_of ''x'' (Some ''Other Comprehensive Income (Loss)''))
   \<and> \<not> py_in ''decrease'' (description_of ''x'' (Some ''Other Comprehensive Income (Loss)''))
   \<and> py_in ''comprehensive income'' (description_of ''x'' (Some ''Other Comprehensive Income (Loss)''))
   \<and> categorize_concept ''x'' (Some ''Other Comprehensive Income (Loss)'') = Some balance_sheet"
proof -
  have a: "py_in ''increase'' (description_of ''us-gaap.IncreaseDecreaseInAccountsPayable''
       (Some ''Increase (Decrease) in Accounts Payable''))"
    by code_simp
  have b1: "\<not> py_in ''increase'' (description_of ''x'' (Some ''Other Comprehensive Income (Loss)''))"
    by code_simp
  have b2: "\<not> py_in ''decrease'' (description_of ''x'' (Some ''Other Comprehensive Income (Loss)''))"
    by code_simp
  have b3: "py_in ''comprehensive income'' (description_of ''x'' (Some ''Other Comprehensive Income (Loss)''))"
    by code_simp
  show ?thesis
    using a b1 b2 b3
      classifier_short_circuit [of "''us-gaap.IncreaseDecreaseInAccountsPayable''"
        "Some ''Increase (Decrease) in Accounts Payable''"]
      classifier_short_circuit [of "''x''" "Some ''Other Comprehensive Income (Loss)''"]
    by blast
qed

section \<open>Properties of the period matcher\<close>

lemma fp_accepted_iff:
  "fp_accepted fp \<longleftrightarrow> fp \<in> Some ` {''FY'', ''Q4'', '''', ''Q1'', ''Q2'', ''Q3''}"
  by (cases fp) (auto simp: fp_accepted_def)

lemma has_reported_value_iff:
  "has_reported_value cd rt p \<longleftrightarrow>
     (\<exists>units unit_key vals v. c_units cd = Some units \<and> (unit_key, vals) \<in> set units
        \<and> v \<in> set vals \<and> reported_value_match v rt p)"
  by (cases "c_units cd") (fastforce simp: has_reported_value_def list_ex_iff)+

lemma first_period_match_Some:
  "first_period_match units rt p = Some (unit_key, v) \<Longrightarrow>
     period_match v rt p \<and> (\<exists>vals. (unit_key, vals) \<in> set units \<and> v \<in> set vals)"
proof (induction units)
  case Nil
  then show ?case by simp
next
  case (Cons u units)
  obtain k vals where u: "u = (k, vals)" by (cases u)
  show ?case
  proof (cases "List.find (\<lambda>v. period_match v rt p) vals")
    case None
    with Cons u show ?thesis by auto
  next
    case (Some w)
    then have "period_match w rt p" "w \<in> set vals"
      by (auto simp: find_Some_iff)
    with Cons.prems u Some show ?thesis by auto
  qed
qed

text \<open>
  C2, as the code has it. In the concept-selection pass a value counts for the requested
  period exactly when its form equals the report type, its period end is a non-empty
  string that contains the period string, its fiscal period (the empty string when the key
  is absent) is one of FY, Q4, "", Q1, Q2, Q3, and its value is not null. In the
  value-selection pass the same conditions decide the match for every value that is not
  null.
\<close>

theorem period_match_predicate:
  "(reported_value_match v rt p \<longleftrightarrow>
      v_form v = Some rt
      \<and> (\<exists>e. v_end v = Some e \<and> e \<noteq> [] \<and> py_in p e)
      \<and> get_default (v_fp v) '''' \<in> Some ` {''FY'', ''Q4'', '''', ''Q1'', ''Q2'', ''Q3''}
      \<and> v_val v \<noteq> None)
   \<and> (v_val v \<noteq> None \<longrightarrow>
        (period_match v rt p \<longleftrightarrow>
           v_form v = Some rt
           \<and> (\<exists>e. v_end v = Some e \<and> e \<noteq> [] \<and> py_in p e)
           \<and> get_default (v_fp v) '''' \<in> Some ` {''FY'', ''Q4'', '''', ''Q1'', ''Q2'', ''Q3''}
           \<and> v_val v \<noteq> None))"
proof -
  have e: "end_contains (v_end v) p \<longleftrightarrow> (\<exists>e. v_end v = Some e \<and> e \<noteq> [] \<and> py_in p e)"
    by (cases "v_end v") (simp_all add: end_contains_def)
  show ?thesis
    unfolding reported_value_match_def period_match_def e fp_accepted_iff by blast
qed

theorem period_match_predicate_witness:
  "v_val \<lparr> v_form = Some ''10-K'', v_end = Some ''2023-12-31'', v_fy = Some 2023,
           v_fp = Present ''FY'', v_val = Some 1000, v_filed = Some ''2024-02-01'',
           v_accn = Some ''0000000000-24-000001'' \<rparr> \<noteq> None
   \<and> period_match \<lparr> v_form = Some ''10-K'', v_end = Some ''2023-12-31'', v_fy = Some 2023,
           v_fp = Present ''FY'', v_val = Some 1000, v_filed = Some ''2024-02-01'',
           v_accn = Some ''0000000000-24-000001'' \<rparr> ''10-K'' ''2023''
   \<and> reported_value_match \<lparr> v_form = Some ''10-K'', v_end = Some ''2023-12-31'', v_fy = Some 2023,
           v_fp = Present ''FY'', v_val = Some 1000, v_filed = Some ''2024-02-01'',
           v_accn = Some ''0000000000-24-000001'' \<rparr> ''10-K'' ''2023''"
proof -
  let ?v = "\<lparr> v_form = Some ''10-K'', v_end = Some ''2023-12-31'', v_fy = Some 2023,
           v_fp = Present ''FY'', v_val = Some (1000::rat), v_filed = Some ''2024-02-01'',
           v_accn = Some ''0000000000-24-000001'' \<rparr>"
  have s: "py_in ''2023'' ''2023-12-31''" by code_simp
  have r: "v_form ?v = Some ''10-K''
      \<and> (\<exists>e. v_end ?v = Some e \<and> e \<noteq> [] \<and> py_in ''2023'' e)
      \<and> get_default (v_fp ?v) '''' \<in> Some ` {''FY'', ''Q4'', '''', ''Q1'', ''Q2'', ''Q3''}
      \<and> v_val ?v \<noteq> None"
    using s by simp
  have n: "v_val ?v \<noteq> None" by simp
  from period_match_predicate [of ?v "''10-K''" "''2023''"] r n
  show ?thesis by blast
qed

text \<open>
  The claim as the specification states it fails on the code in both passes: with an empty
  period string and an empty period end the first pass rejects a value that the stated
  predicate accepts, and the second pass accepts a value whose \<open>val\<close> is null.
\<close>

theorem period_match_counterexample:
  "PeriodMatcher_matches
      \<lparr> v_form = Some ''10-K'', v_end = Some '''', v_fy = None, v_fp = Present ''FY'',
        v_val = Some 1, v_filed = None, v_accn = None \<rparr> ''10-K'' ''''
   \<and> \<not> reported_value_match
      \<lparr> v_form = Some ''10-K'', v_end = Some '''', v_fy = None, v_fp = Present ''FY'',
        v_val = Some 1, v_filed = None, v_accn = None \<rparr> ''10-K'' ''''
   \<and> period_match
      \<lparr> v_form = Some ''10-K'', v_end = Some ''2023-12-31'', v_fy = None, v_fp = Present ''FY'',
        v_val = None, v_filed = None, v_accn = None \<rparr> ''10-K'' ''2023''
   \<and> \<not> PeriodMatcher_matches
      \<lparr> v_form = Some ''10-K'', v_end = Some ''2023-12-31'', v_fy = None, v_fp = Present ''FY'',
        v_val = None, v_filed = None, v_accn = None \<rparr> ''10-K'' ''2023''"
proof -
  have s: "py_in ''2023'' ''2023-12-31''" by code_simp
  show ?thesis
    using s
    by (simp add: PeriodMatcher_matches_def reported_value_match_def period_match_def
        end_contains_def fp_accepted_def)
qed

section \<open>Properties of the ratio calculator\<close>

lemma run_blocks_total:
  "(\<forall>b \<in> set bs. fst b \<longrightarrow> (\<exists>x. fst (snd (snd b)) = Inr x)) \<Longrightarrow> \<exists>r'. run_blocks bs r = Inr r'"
  by (induction bs r rule: run_blocks.induct) auto

lemma run_blocks_other_key:
  "run_blocks bs r = Inr r' \<Longrightarrow> k \<notin> set (map (\<lambda>b. fst (snd b)) bs) \<Longrightarrow> r' k = r k"
  by (induction bs r rule: run_blocks.induct) (auto split: if_splits sum.splits)

lemma run_blocks_absent:
  "run_blocks bs r = Inr r' \<Longrightarrow> r k = None \<Longrightarrow> (\<forall>b \<in> set bs. fst (snd b) = k \<longrightarrow> \<not> fst b)
     \<Longrightarrow> r' k = None"
  by (induction bs r rule: run_blocks.induct) (auto split: if_splits sum.splits)

lemma run_blocks_lookup:
  "run_blocks bs r = Inr r' \<Longrightarrow> distinct (map (\<lambda>b. fst (snd b)) bs) \<Longrightarrow>
   (True, k, Inr x, l) \<in> set bs \<Longrightarrow> r' k = Some (create_ratio_result x l)"
proof (induction bs r rule: run_blocks.induct)
  case (1 ratios)
  then show ?case by simp
next
  case (2 condition key computed label blocks ratios)
  show ?case
  proof (cases "(True, k, Inr x, l) = (condition, key, computed, label)")
    case True
    then have eq: "condition" "key = k" "computed = Inr x" "label = l" by simp_all
    from "2.prems"(1) eq
    have run: "run_blocks blocks (ratios (k \<mapsto> create_ratio_result x l)) = Inr r'" by simp
    from "2.prems"(2) eq have "k \<notin> set (map (\<lambda>b. fst (snd b)) blocks)" by simp
    from run_blocks_other_key [OF run this] show ?thesis by simp
  next
    case False
    with 2 show ?thesis by (auto split: if_splits sum.splits simp del: fun_upd_apply)
  qed
qed

lemma ratio_blocks_safe:
  "\<forall>b \<in> set (ratio_blocks v). fst b \<longrightarrow> (\<exists>x. fst (snd (snd b)) = Inr x)"
  by (simp add: ratio_blocks_def Let_def py_div_def percent_def)

lemma ratio_blocks_distinct: "distinct (map (\<lambda>b. fst (snd b)) (ratio_blocks v))"
  by (simp add: ratio_blocks_def Let_def)

lemma calculate_ratios_total: "\<exists>ratios. calculate_ratios v = Inr ratios"
  unfolding calculate_ratios_def using run_blocks_total [OF ratio_blocks_safe] by blast






lemma fl_examples:
  "fl (1 / 10) = 3602879701896397 / 36028797018963968"
  "fl (6 / 10) = 5404319552844595 / 9007199254740992"
  "fl 1000 = 1000"
  by code_simp+

lemma example_computed:
  "percent 400 1000 = Inr 40" "py_div 200 100 = Inr 2" "py_div 300 500 = Inr (fl (6 / 10))"
  "percent 90 500 = Inr 18" "py_div 90 10 = Inr 9"
  by code_simp+

lemma example_results:
  "create_ratio_result 40 ''Gross Profit Margin'' =
     \<lparr> r_value = 40, r_label = ''Gross Profit Margin'', r_formatted = ''40.00%'' \<rparr>"
  "create_ratio_result 2 ''Current Ratio'' =
     \<lparr> r_value = 2, r_label = ''Current Ratio'', r_formatted = ''2.00x'' \<rparr>"
  "create_ratio_result (fl (6 / 10)) ''Debt to Equity'' =
     \<lparr> r_value = fl (6 / 10), r_label = ''Debt to Equity'', r_formatted = ''0.60'' \<rparr>"
  "create_ratio_result 18 ''Return on Equity (ROE)'' =
     \<lparr> r_value = 18, r_label = ''Return on Equity (ROE)'', r_formatted = ''18.00%'' \<rparr>"
  "create_ratio_result 9 ''Earnings Per Share'' =
     \<lparr> r_value = 9, r_label = ''Earnings Per Share'', r_formatted = ''$9.00'' \<rparr>"
  by code_simp+

lemma example_blocks:
  "(True, ''gross_profit_margin'', Inr 40, ''Gross Profit Margin'') \<in> set (ratio_blocks example_values)"
  "(True, ''current_ratio'', Inr 2, ''Current Ratio'') \<in> set (ratio_blocks example_values)"
  "(True, ''debt_to_equity'', Inr (fl (6 / 10)), ''Debt to Equity'') \<in> set (ratio_blocks example_values)"
  "(True, ''roe'', Inr 18, ''Return on Equity (ROE)'') \<in> set (ratio_blocks example_values)"
  "(True, ''earnings_per_share'', Inr 9, ''Earnings Per Share'') \<in> set (ratio_blocks example_values)"
  by (simp_all add: ratio_blocks_def example_values_def Let_def example_computed)

text \<open>
  C5. On the extracted values of the end-to-end example the calculator returns, without
  an error, a mapping in which the gross profit margin is 40.0 with the string "40.00%",
  the current ratio is 2.0, the debt-to-equity ratio is the float 0.6, the return on
  equity is 18.0 and the earnings per share are 9.0 with the string "$9.00".
\<close>

theorem ratio_end_to_end_example:
  "\<exists>ratios. calculate_ratios example_values = Inr ratios
     \<and> ratios ''gross_profit_margin'' =
         Some \<lparr> r_value = 40, r_label = ''Gross Profit Margin'', r_formatted = ''40.00%'' \<rparr>
     \<and> ratios ''current_ratio'' =
         Some \<lparr> r_value = 2, r_label = ''Current Ratio'', r_formatted = ''2.00x'' \<rparr>
     \<and> ratios ''debt_to_equity'' =
         Some \<lparr> r_value = fl (6 / 10), r_label = ''Debt to Equity'', r_formatted = ''0.60'' \<rparr>
     \<and> ratios ''roe'' =
         Some \<lparr> r_value = 18, r_label = ''Return on Equity (ROE)'', r_formatted = ''18.00%'' \<rparr>
     \<and> ratios ''earnings_per_share'' =
         Some \<lparr> r_value = 9, r_label = ''Earnings Per Share'', r_formatted = ''$9.00'' \<rparr>"
proof -
  obtain ratios where run: "run_blocks (ratio_blocks example_values) Map.empty = Inr ratios"
    using run_blocks_total [OF ratio_blocks_safe] by blast
  note look = run_blocks_lookup [OF run ratio_blocks_distinct]
  have "calculate_ratios example_values = Inr ratios"
    using run by (simp add: calculate_ratios_def)
  moreover have "ratios ''gross_profit_margin'' =
         Some \<lparr> r_value = 40, r_label = ''Gross Profit Margin'', r_formatted = ''40.00%'' \<rparr>"
    using look [OF example_blocks(1)] by (simp only: example_results)
  moreover have "ratios ''current_ratio'' =
         Some \<lparr> r_value = 2, r_label = ''Current Ratio'', r_formatted = ''2.00x'' \<rparr>"
    using look [OF example_blocks(2)] by (simp only: example_results)
  moreover have "ratios ''debt_to_equity'' =
         Some \<lparr> r_value = fl (6 / 10), r_label = ''Debt to Equity'', r_formatted = ''0.60'' \<rparr>"
    using look [OF example_blocks(3)] by (simp only: example_results)
  moreover have "ratios ''roe'' =
         Some \<lparr> r_value = 18, r_label = ''Return on Equity (ROE)'', r_formatted = ''18.00%'' \<rparr>"
    using look [OF example_blocks(4)] by (simp only: example_results)
  moreover have "ratios ''earnings_per_share'' =
         Some \<lparr> r_value = 9, r_label = ''Earnings Per Share'', r_formatted = ''$9.00'' \<rparr>"
    using look [OF example_blocks(5)] by (simp only: example_results)
  ultimately show ?thesis by blast
qed

text \<open>
  C6. When the current liabilities are zero the calculator raises no error and the
  mapping it returns has none of the keys \<open>current_ratio\<close>, \<open>quick_ratio\<close> and
  \<open>cash_ratio\<close>.
\<close>

theorem liquidity_ratios_absent:
  "current_liabilities v = 0 \<Longrightarrow>
     \<exists>ratios. calculate_ratios v = Inr ratios
       \<and> ratios ''current_ratio'' = None \<and> ratios ''quick_ratio'' = None
       \<and> ratios ''cash_ratio'' = None"
proof -
  assume z: "current_liabilities v = 0"
  obtain ratios where run: "run_blocks (ratio_blocks v) Map.empty = Inr ratios"
    using run_blocks_total [OF ratio_blocks_safe] by blast
  have a: "\<forall>b \<in> set (ratio_blocks v). fst (snd b) = k \<longrightarrow> \<not> fst b"
    if "k = ''current_ratio'' \<or> k = ''quick_ratio'' \<or> k = ''cash_ratio''" for k
    using that z by (auto simp: ratio_blocks_def Let_def)
  have "ratios ''current_ratio'' = None" "ratios ''quick_ratio'' = None"
    "ratios ''cash_ratio'' = None"
    using run_blocks_absent [OF run _ a] by simp_all
  with run show ?thesis by (simp add: calculate_ratios_def)
qed

theorem liquidity_ratios_absent_witness:
  "current_liabilities
      \<lparr> revenue = 1000, gross_profit = 400, operating_income = 0, net_income = 90,
        cost_of_goods_sold = 0, depreciation_amortization = 0, interest_expense = 0,
        shares_outstanding = 10, total_assets = 800, current_assets = 200,
        total_liabilities = 300, current_liabilities = 0, total_equity = 500, cash = 50,
        inventory = 20, accounts_receivable = 0, operating_cash_flow = 0, capex = 0 \<rparr> = 0
   \<and> (\<exists>ratios. calculate_ratios
      \<lparr> revenue = 1000, gross_profit = 400, operating_income = 0, net_income = 90,
        cost_of_goods_sold = 0, depreciation_amortization = 0, interest_expense = 0,
        shares_outstanding = 10, total_assets = 800, current_assets = 200,
        total_liabilities = 300, current_liabilities = 0, total_equity = 500, cash = 50,
        inventory = 20, accounts_receivable = 0, operating_cash_flow = 0, capex = 0 \<rparr> = Inr ratios
       \<and> ratios ''current_ratio'' = None \<and> ratios ''quick_ratio'' = None
       \<and> ratios ''cash_ratio'' = None)"
proof -
  let ?v = "\<lparr> revenue = 1000, gross_profit = 400, operating_income = 0, net_income = 90,
        cost_of_goods_sold = 0, depreciation_amortization = 0, interest_expense = 0,
        shares_outstanding = 10, total_assets = 800, current_assets = 200,
        total_liabilities = 300, current_liabilities = 0, total_equity = 500, cash = 50,
        inventory = 20, accounts_receivable = 0, operating_cash_flow = 0, capex = 0 \<rparr>"
  have z: "current_liabilities ?v = 0" by simp
  from liquidity_ratios_absent [OF z] z show ?thesis by blast
qed



section \<open>Properties of the XBRL instance parser\<close>











text \<open>
  C9, at the inputs where the code departs from it. For the texts "1.2.3", "--5" and
  "2023-01-01" the test on the digits succeeds and \<open>float\<close> raises ValueError instead of
  keeping the raw string; the handler of \<open>parse_xbrl_instance\<close> then returns the empty
  dictionary, so a document with one such element loses every fact, also the well-formed
  ones.
\<close>

theorem xbrl_numeric_coercion_raises:
  "coerce_value ''1.2.3'' = Inl ValueError
   \<and> coerce_value ''--5'' = Inl ValueError
   \<and> coerce_value ''2023-01-01'' = Inl ValueError
   \<and> coerce_value ''12.5'' = Inr (Number (25 / 2))
   \<and> coerce_value ''n/a'' = Inr (Text ''n/a'')
   \<and> parse_xbrl_instance (Some malformed_number_doc) = None"
  by code_simp

section \<open>Properties of the statement resolver\<close>

lemma endpoints_loop_Empty:
  "fst (endpoints_loop env urls rt p) = Empty \<longleftrightarrow>
     (\<forall>url \<in> set urls. \<forall>d. session_get env url \<noteq> Response200 (Some d))"
  by (induction urls) (auto split: response.splits option.splits prod.splits)

lemma get_financial_statements_Empty:
  "fst (get_financial_statements env cik rt p) = Empty \<longleftrightarrow>
     SECService_get_financial_statements_xbrl env cik rt p = None
     \<and> (get_reported_concepts_from_filing env cik rt p = None
        \<or> get_reported_concepts_from_filing env cik rt p = Some [])
     \<and> (\<forall>url \<in> set (endpoints (py_zfill 10 cik)). \<forall>d. session_get env url \<noteq> Response200 (Some d))"
  using endpoints_loop_Empty [of env "endpoints (py_zfill 10 cik)" rt p]
  by (auto simp: get_financial_statements_def Let_def split: option.splits prod.splits)

lemma py_truthy_iff: "py_truthy r \<longleftrightarrow> r \<noteq> Empty"
  by (cases r) simp_all



lemma peer_env_calls:
  "snd (get_financial_statements peer_env ''1018724'' ''10-K'' ''2023'') =
     [Tier1_xbrl, Tier2_filing,
      Tier3_fetch ''https://data.sec.gov/api/xbrl/companyfacts/CIK0001018724.json'',
      Tier3_fetch ''https://data.sec.gov/submissions/CIK0001018724.json'',
      Tier3_fetch ''https://data.sec.gov/api/xbrl/company_concept/CIK0001018724/us-gaap/Revenues.json'']"
  by code_simp

lemma peer_env_truthy:
  "py_truthy (fst (get_financial_statements peer_env ''320193'' ''10-K'' ''2023''))"
  "\<not> py_truthy (fst (get_financial_statements peer_env ''1018724'' ''10-K'' ''2023''))"
  by code_simp+

lemma peer_env_keys:
  "map fst (get_peer_group_analysis peer_env [''320193'', ''1018724''] ''10-K'' ''2023'') = [''320193'']"
  by code_simp


section \<open>Properties of the peer-group aggregation\<close>

text \<open>
  C8, as the code has it. In a peer-group call over two distinct companies of which the
  first resolves to a non-empty result, the aggregate holds the first company's result;
  the second company's entry is present, holding what \<open>get_financial_statements\<close>
  returned for it, when that is not the empty dictionary, and is omitted when it is. It is
  the empty dictionary exactly when the first tier produced nothing, the second tier
  reported no concepts and no endpoint of the third tier answered with a document. The
  call returns a dictionary in every case.
\<close>

theorem peer_group_partial_failure:
  assumes "a \<noteq> b"
    and "py_truthy (fst (get_financial_statements env a rt p))"
  shows "map_of (get_peer_group_analysis env [a, b] rt p) a =
           Some (fst (get_financial_statements env a rt p))
    \<and> map_of (get_peer_group_analysis env [a, b] rt p) b =
         (if py_truthy (fst (get_financial_statements env b rt p))
          then Some (fst (get_financial_statements env b rt p)) else None)
    \<and> (\<not> py_truthy (fst (get_financial_statements env b rt p)) \<longleftrightarrow>
         SECService_get_financial_statements_xbrl env b rt p = None
         \<and> (get_reported_concepts_from_filing env b rt p = None
            \<or> get_reported_concepts_from_filing env b rt p = Some [])
         \<and> (\<forall>url \<in> set (endpoints (py_zfill 10 b)). \<forall>d. session_get env url \<noteq> Response200 (Some d)))"
proof -
  have 1: "map_of (get_peer_group_analysis env [a, b] rt p) a =
           Some (fst (get_financial_statements env a rt p))"
    using assms by (simp add: get_peer_group_analysis_def Let_def update_conv')
  have 2: "map_of (get_peer_group_analysis env [a, b] rt p) b =
         (if py_truthy (fst (get_financial_statements env b rt p))
          then Some (fst (get_financial_statements env b rt p)) else None)"
    using assms by (simp add: get_peer_group_analysis_def Let_def update_conv')
  have 3: "\<not> py_truthy (fst (get_financial_statements env b rt p)) \<longleftrightarrow>
         SECService_get_financial_statements_xbrl env b rt p = None
         \<and> (get_reported_concepts_from_filing env b rt p = None
            \<or> get_reported_concepts_from_filing env b rt p = Some [])
         \<and> (\<forall>url \<in> set (endpoints (py_zfill 10 b)). \<forall>d. session_get env url \<noteq> Response200 (Some d))"
    unfolding py_truthy_iff using get_financial_statements_Empty [of env b rt p] by simp
  from 1 2 3 show ?thesis by blast
qed

theorem peer_group_partial_failure_witness:
  "''320193'' \<noteq> ''1018724''
   \<and> py_truthy (fst (get_financial_statements peer_env ''320193'' ''10-K'' ''2023''))
   \<and> map_of (get_peer_group_analysis peer_env [''320193'', ''1018724''] ''10-K'' ''2023'') ''320193'' =
       Some (fst (get_financial_statements peer_env ''320193'' ''10-K'' ''2023''))
   \<and> map_of (get_peer_group_analysis peer_env [''320193'', ''1018724''] ''10-K'' ''2023'') ''1018724'' = None"
proof -
  have n: "''320193'' \<noteq> ''1018724''" by simp
  from peer_group_partial_failure [OF n peer_env_truthy(1)] peer_env_truthy n
  show ?thesis by simp
qed

text \<open>
  The claim as the specification states it fails: with \<open>peer_env\<close> the company 320193
  resolves, the company 1018724 comes back empty from all three tiers (every tier was
  called), and the aggregate has the single key 320193; the failed company is omitted, not
  present with an empty entry.
\<close>

theorem peer_group_counterexample:
  "py_truthy (fst (get_financial_statements peer_env ''320193'' ''10-K'' ''2023''))
   \<and> \<not> py_truthy (fst (get_financial_statements peer_env ''1018724'' ''10-K'' ''2023''))
   \<and> snd (get_financial_statements peer_env ''1018724'' ''10-K'' ''2023'') =
       [Tier1_xbrl, Tier2_filing,
        Tier3_fetch ''https://data.sec.gov/api/xbrl/companyfacts/CIK0001018724.json'',
        Tier3_fetch ''https://data.sec.gov/submissions/CIK0001018724.json'',
        Tier3_fetch ''https://data.sec.gov/api/xbrl/company_concept/CIK0001018724/us-gaap/Revenues.json'']
   \<and> map fst (get_peer_group_analysis peer_env [''320193'', ''1018724''] ''10-K'' ''2023'') = [''320193'']"
  using peer_env_truthy peer_env_calls peer_env_keys by simp

end
